theory Spec2Isabelle
  imports Complex_Main "HOL-Library.Char_ord" "HOL-Library.List_Lexorder"
    "HOL-Library.Product_Lexorder"
begin

section \<open>Strings\<close>

text \<open>
  Python \<^verbatim>\<open>str\<close> values are modelled as \<^typ>\<open>string\<close>, and the model is one of ASCII
  strings, which is what instrument names are. \<open>upper\<close> maps the letters \<^verbatim>\<open>a-z\<close> and
  leaves every other character alone; \<open>strip\<close> removes the ASCII white space. Off ASCII
  Python does more (\<^verbatim>\<open>str.upper\<close> maps further letters, some to two characters, and
  \<^verbatim>\<open>str.strip\<close> removes further spaces such as U+0085 and U+00A0), and there the two
  definitions are not the code. The general theorems below do not rest on that part: those
  on the cache never look inside \<open>strip\<close> or \<open>upper\<close>, and the one on normalisation uses
  \<open>upper\<close> only on the characters \<^verbatim>\<open>A-Z0-9\<close>, which Python leaves alone as well. The
  closed examples are on ASCII input.
\<close>

definition upper_char :: "char \<Rightarrow> char" where
  "upper_char c =
     (case map_of (zip ''abcdefghijklmnopqrstuvwxyz'' ''ABCDEFGHIJKLMNOPQRSTUVWXYZ'') c of
        Some u \<Rightarrow> u
      | None \<Rightarrow> c)"

definition upper :: "string \<Rightarrow> string" where
  "upper s = map upper_char s"

text \<open>\<^verbatim>\<open>str.isspace\<close> on ASCII: tab, line feed, vertical tab, form feed, carriage return,
  the four separators 0x1c..0x1f and the blank.\<close>

definition is_space :: "char \<Rightarrow> bool" where
  "is_space c \<longleftrightarrow>
     c \<in> set [CHR 0x09, CHR 0x0A, CHR 0x0B, CHR 0x0C, CHR 0x0D,
                CHR 0x1C, CHR 0x1D, CHR 0x1E, CHR 0x1F, CHR 0x20]"

definition strip :: "string \<Rightarrow> string" where
  "strip s = rev (dropWhile is_space (rev (dropWhile is_space s)))"

definition startswith :: "string \<Rightarrow> string \<Rightarrow> bool" where
  "startswith s p = (take (length p) s = p)"

definition endswith :: "string \<Rightarrow> string \<Rightarrow> bool" where
  "endswith s p = (length p \<le> length s \<and> drop (length s - length p) s = p)"

text \<open>\<^verbatim>\<open>sub in s\<close> on strings: \<open>sub\<close> occurs in \<open>s\<close> as a contiguous block.\<close>

fun contains :: "string \<Rightarrow> string \<Rightarrow> bool" where
  "contains [] sub = (sub = [])"
| "contains (c # cs) sub = (startswith (c # cs) sub \<or> contains cs sub)"

section \<open>Normalisation\<close>

definition suffixes_to_remove :: "string list" where
  "suffixes_to_remove = [''M'', ''PRO'', ''.PRO'', ''_PRO'', ''.M'', ''_M'', ''.'', ''-'', ''_'']"

definition prefixes_to_remove :: "string list" where
  "prefixes_to_remove = [''MT5_'', ''FX_'']"

text \<open>The two loops of \<^verbatim>\<open>normalize\<close>: the first entry that matches is cut off and the loop
  is left (\<^verbatim>\<open>break\<close>).\<close>

fun remove_suffix :: "string list \<Rightarrow> string \<Rightarrow> string" where
  "remove_suffix [] n = n"
| "remove_suffix (suffix # rest) n =
     (if endswith n suffix then take (length n - length suffix) n else remove_suffix rest n)"

fun remove_prefix :: "string list \<Rightarrow> string \<Rightarrow> string" where
  "remove_prefix [] n = n"
| "remove_prefix (prefix # rest) n =
     (if startswith n prefix then drop (length prefix) n else remove_prefix rest n)"

text \<open>The character class \<^verbatim>\<open>[A-Z0-9]\<close> of the final \<^verbatim>\<open>re.sub\<close>.\<close>

definition is_upper_alnum :: "char \<Rightarrow> bool" where
  "is_upper_alnum c \<longleftrightarrow> c \<in> set ''ABCDEFGHIJKLMNOPQRSTUVWXYZ0123456789''"

definition normalize_sym :: "string \<Rightarrow> string" where
  "normalize_sym s =
     (if s = [] then s
      else filter is_upper_alnum
             (remove_prefix prefixes_to_remove (remove_suffix suffixes_to_remove (upper s))))"


section \<open>The broker terminal and the similarity library\<close>

text \<open>
  The \<^verbatim>\<open>MetaTrader5\<close> package is outside the repository. Each primitive the handler calls is
  a field of the record \<open>broker\<close>; a call either raises or returns, and most primitives return
  \<^verbatim>\<open>None\<close> when the terminal has no answer. Python floats (volumes and prices) are
  modelled by their real values; the handler only copies them and compares a price to zero.
\<close>

datatype 'a reply = Raised | Returned 'a

record symbol_info =
  info_description :: "string option"
  info_visible :: bool

record tick =
  bid :: real
  ask :: real

record request =
  req_action :: int
  req_symbol :: string
  req_volume :: real
  req_type :: int
  req_position :: "int option"
  req_price :: real
  req_sl :: "real option"
  req_tp :: "real option"
  req_deviation :: int
  req_magic :: int
  req_comment :: string
  req_type_time :: int
  req_type_filling :: int

record order_result =
  retcode :: int
  order :: int

record position =
  ticket :: int
  pos_symbol :: string
  pos_type :: int
  pos_volume :: real

record broker =
  symbols_get :: "string list option reply"
  symbol_info :: "string \<Rightarrow> symbol_info option reply"
  symbol_select :: "string \<Rightarrow> bool reply"
  symbol_info_tick :: "string \<Rightarrow> tick option reply"
  order_send :: "request \<Rightarrow> order_result option reply"
  positions_get :: "string option \<Rightarrow> position list option reply"

text \<open>The package's constants, with the values it gives them.\<close>

definition ORDER_TYPE_BUY :: int where "ORDER_TYPE_BUY = 0"
definition ORDER_TYPE_SELL :: int where "ORDER_TYPE_SELL = 1"
definition ORDER_TYPE_BUY_LIMIT :: int where "ORDER_TYPE_BUY_LIMIT = 2"
definition ORDER_TYPE_SELL_LIMIT :: int where "ORDER_TYPE_SELL_LIMIT = 3"
definition ORDER_TYPE_BUY_STOP :: int where "ORDER_TYPE_BUY_STOP = 4"
definition ORDER_TYPE_SELL_STOP :: int where "ORDER_TYPE_SELL_STOP = 5"
definition TRADE_ACTION_DEAL :: int where "TRADE_ACTION_DEAL = 1"
definition TRADE_ACTION_PENDING :: int where "TRADE_ACTION_PENDING = 5"
definition ORDER_TIME_GTC :: int where "ORDER_TIME_GTC = 0"
definition ORDER_FILLING_FOK :: int where "ORDER_FILLING_FOK = 0"
definition TRADE_RETCODE_DONE :: int where "TRADE_RETCODE_DONE = 10009"

text \<open>
  \<^verbatim>\<open>difflib.SequenceMatcher\<close> is outside the repository as well: its three scores are the
  fields of \<open>sequence_matcher\<close>, each taking the candidate first and the word second, and each
  standing for the exact quotient the library computes. \<^verbatim>\<open>get_close_matches\<close> itself is
  the library's loop: keep the candidates that pass the three cutoff tests, and return the
  \<open>n\<close> largest \<open>(score, candidate)\<close> pairs, largest first.
\<close>

record sequence_matcher =
  real_quick_ratio :: "string \<Rightarrow> string \<Rightarrow> real"
  quick_ratio :: "string \<Rightarrow> string \<Rightarrow> real"
  ratio :: "string \<Rightarrow> string \<Rightarrow> real"

definition passes_cutoff :: "sequence_matcher \<Rightarrow> real \<Rightarrow> string \<Rightarrow> string \<Rightarrow> bool" where
  "passes_cutoff sm cutoff word x \<longleftrightarrow>
     real_quick_ratio sm x word \<ge> cutoff \<and> quick_ratio sm x word \<ge> cutoff
       \<and> ratio sm x word \<ge> cutoff"

definition nlargest :: "nat \<Rightarrow> (real \<times> string) list \<Rightarrow> (real \<times> string) list" where
  "nlargest n result = take n (rev (sort result))"

definition get_close_matches ::
    "sequence_matcher \<Rightarrow> string \<Rightarrow> string list \<Rightarrow> nat \<Rightarrow> real \<Rightarrow> string list" where
  "get_close_matches sm word possibilities n cutoff =
     map snd (nlargest n
       (map (\<lambda>x. (ratio sm x word, x)) (filter (passes_cutoff sm cutoff word) possibilities)))"

section \<open>The handler\<close>

record handler =
  connected_mt5 :: bool
  symbol_cache :: "string \<rightharpoonup> string"
  broker_symbols :: "string list"

text \<open>
  What a run leaves behind besides the handler's fields: the calls it made to the broker,
  in order, and the lines it logged. The banner lines of \<^verbatim>\<open>send_order\<close> are left out.
\<close>

datatype call =
    Symbols_get
  | Symbol_info string
  | Symbol_select string
  | Symbol_info_tick string
  | Order_send request
  | Positions_get "string option"

datatype strategy =
  Cached | Exact | Case_match | Normalized | Prefix | Contains | Fuzzy | Description | Transform

datatype level = INFO | WARNING | ERROR

datatype message =
    Symbol_map_error
  | Symbol_mapping string
  | Result strategy string string
  | Symbol_map_warning
  | No_mapping string
  | Symbol_cache nat
  | Symbol_cache_error
  | Description_match_error
  | Trade_error
  | Symbol_error string
  | Unsupported_action "string option"
  | Price_error string
  | Sending_order
  | Order_failed int
  | Success int
  | Exception_error
  | Symbol_warning string
  | Symbol_verify_error
  | Close_request "string option"
  | Close_info_none
  | Close_info_found nat
  | Close_setup int
  | Close_error int
  | Close_success int
  | Close_exception
  | Cache_cleared

datatype event = Broker call | Log level message

fun broker_calls :: "event list \<Rightarrow> call list" where
  "broker_calls [] = []"
| "broker_calls (Broker c # es) = c # broker_calls es"
| "broker_calls (Log l m # es) = broker_calls es"

fun order_sends :: "event list \<Rightarrow> request list" where
  "order_sends [] = []"
| "order_sends (Broker (Order_send r) # es) = r # order_sends es"
| "order_sends (e # es) = order_sends es"

subsection \<open>Symbol mapping\<close>

definition cache_broker_symbols :: "broker \<Rightarrow> handler \<Rightarrow> handler \<times> event list" where
  "cache_broker_symbols br h =
     (case symbols_get br of
        Raised \<Rightarrow>
          (h\<lparr>broker_symbols := []\<rparr>, [Broker Symbols_get, Log ERROR Symbol_cache_error])
      | Returned None \<Rightarrow>
          (h\<lparr>broker_symbols := []\<rparr>, [Broker Symbols_get, Log INFO (Symbol_cache 0)])
      | Returned (Some names) \<Rightarrow>
          (h\<lparr>broker_symbols := names\<rparr>,
           [Broker Symbols_get, Log INFO (Symbol_cache (length names))]))"

text \<open>
  \<^verbatim>\<open>fuzzy_map\<close>: the first match, in rank order, that is the upper-case form of a broker
  symbol gives the first such broker symbol. Nothing in its \<^verbatim>\<open>try\<close> block raises on
  strings, so the handler of the exception has no branch here.
\<close>

fun first_named :: "string list \<Rightarrow> string list \<Rightarrow> string option" where
  "first_named [] broker_syms = None"
| "first_named (match # matches) broker_syms =
     (case find (\<lambda>s. upper s = match) broker_syms of
        Some s \<Rightarrow> Some s
      | None \<Rightarrow> first_named matches broker_syms)"

definition fuzzy_map :: "sequence_matcher \<Rightarrow> string \<Rightarrow> string list \<Rightarrow> string option" where
  "fuzzy_map sm symbol broker_syms =
     first_named (get_close_matches sm (upper symbol) (map upper broker_syms) 3 0.6) broker_syms"

fun description_match :: "broker \<Rightarrow> string \<Rightarrow> string list \<Rightarrow> string option \<times> event list" where
  "description_match br symbol [] = (None, [])"
| "description_match br symbol (s # rest) =
     (case symbol_info br s of
        Raised \<Rightarrow> (None, [Broker (Symbol_info s), Log ERROR Description_match_error])
      | Returned info \<Rightarrow>
          (if (case info of
                 None \<Rightarrow> False
               | Some i \<Rightarrow>
                   (case info_description i of
                      None \<Rightarrow> False
                    | Some d \<Rightarrow>
                        d \<noteq> [] \<and> (contains (upper d) (upper symbol)
                                   \<or> contains (upper symbol) (upper d))))
           then (Some s, [Broker (Symbol_info s)])
           else (let (r, t) = description_match br symbol rest
                 in (r, Broker (Symbol_info s) # t))))"

definition transformations :: "(string \<times> string list) list" where
  "transformations =
     [(''EURUSD'', [''EUR/USD'', ''EURUSD'', ''EURUSDm'']),
      (''GBPUSD'', [''GBP/USD'', ''GBPUSD'', ''GBPUSDm'']),
      (''USDJPY'', [''USD/JPY'', ''USDJPY'', ''USDJPYm'']),
      (''AUDUSD'', [''AUD/USD'', ''AUDUSD'', ''AUDUSDm'']),
      (''USDCAD'', [''USD/CAD'', ''USDCAD'', ''USDCADm'']),
      (''USDCHF'', [''USD/CHF'', ''USDCHF'', ''USDCHFm'']),
      (''NZDUSD'', [''NZD/USD'', ''NZDUSD'', ''NZDUSDm'']),
      (''XAUUSD'', [''GOLD'', ''XAU/USD'', ''XAUUSDm'']),
      (''XAGUSD'', [''SILVER'', ''XAG/USD'', ''XAGUSDm'']),
      (''BTCUSD'', [''Bitcoin'', ''BTC/USD'', ''BTCUSDm'']),
      (''ETHUSD'', [''Ethereum'', ''ETH/USD'', ''ETHUSDm''])]"

definition variations :: "string \<Rightarrow> string list" where
  "variations symbol =
     [symbol @ ''m'', symbol @ ''.pro'', symbol @ ''_pro'', symbol @ ''.m'', symbol @ ''_m'',
      filter (\<lambda>c. c \<noteq> CHR ''/'') symbol,
      filter (\<lambda>c. c \<noteq> CHR ''-'') symbol,
      filter (\<lambda>c. c \<noteq> CHR ''_'') symbol]"

definition transform_symbol :: "string list \<Rightarrow> string \<Rightarrow> string option" where
  "transform_symbol broker_syms symbol =
     (case (case map_of transformations (upper symbol) of
              None \<Rightarrow> None
            | Some variants \<Rightarrow> find (\<lambda>variant. variant \<in> set broker_syms) variants) of
        Some variant \<Rightarrow> Some variant
      | None \<Rightarrow> find (\<lambda>variant. variant \<in> set broker_syms) (variations symbol))"

text \<open>
  \<^verbatim>\<open>self.symbol_cache[symbol] = s\<close> is \<open>remember\<close>. Every successful strategy ends the
  same way: store the pair, log the \<^verbatim>\<open>RESULT\<close> line, return.
\<close>

definition remember :: "handler \<Rightarrow> string \<Rightarrow> string \<Rightarrow> handler" where
  "remember h symbol s = h\<lparr>symbol_cache := (symbol_cache h)(symbol \<mapsto> s)\<rparr>"

definition found ::
    "handler \<Rightarrow> event list \<Rightarrow> strategy \<Rightarrow> string \<Rightarrow> string \<Rightarrow> string \<times> handler \<times> event list" where
  "found h t strat symbol s = (s, remember h symbol s, t @ [Log INFO (Result strat symbol s)])"

text \<open>A Python string or \<^verbatim>\<open>None\<close> used as a condition.\<close>

fun truthy :: "string option \<Rightarrow> bool" where
  "truthy None = False"
| "truthy (Some s) = (s \<noteq> [])"

definition map_symbol ::
    "sequence_matcher \<Rightarrow> broker \<Rightarrow> handler \<Rightarrow> string \<Rightarrow> string \<times> handler \<times> event list" where
  "map_symbol sm br h symbol0 =
     (if symbol0 = [] then (symbol0, h, [Log ERROR Symbol_map_error])
      else
        let symbol = strip symbol0 in
        (case symbol_cache h symbol of
           Some cached_symbol \<Rightarrow>
             (cached_symbol, h,
              [Log INFO (Symbol_mapping symbol), Log INFO (Result Cached symbol cached_symbol)])
         | None \<Rightarrow>
            (let (h1, t1) =
                   (if broker_symbols h = [] then cache_broker_symbols br h else (h, []));
                 t = Log INFO (Symbol_mapping symbol) # t1;
                 syms = broker_symbols h1
             in
             if syms = [] then
               (symbol, remember h1 symbol symbol, t @ [Log WARNING Symbol_map_warning])
             else if symbol \<in> set syms then found h1 t Exact symbol symbol
             else
             (case find (\<lambda>s. upper s = upper symbol) syms of
                Some s \<Rightarrow> found h1 t Case_match symbol s
              | None \<Rightarrow>
             (case find (\<lambda>s. normalize_sym s = normalize_sym symbol) syms of
                Some s \<Rightarrow> found h1 t Normalized symbol s
              | None \<Rightarrow>
             (case find (\<lambda>s. startswith (upper s) (upper symbol)) syms of
                Some s \<Rightarrow> found h1 t Prefix symbol s
              | None \<Rightarrow>
             (case find (\<lambda>s. contains (upper s) (upper symbol)) syms of
                Some s \<Rightarrow> found h1 t Contains symbol s
              | None \<Rightarrow>
             (let fuzzy_match = fuzzy_map sm symbol syms in
              if truthy fuzzy_match then found h1 t Fuzzy symbol (the fuzzy_match)
              else
              (let (desc_match, t2) = description_match br symbol syms in
               if truthy desc_match then found h1 (t @ t2) Description symbol (the desc_match)
               else
               (let transformed_match = transform_symbol syms symbol in
                if truthy transformed_match \<and> the transformed_match \<in> set syms
                then found h1 (t @ t2) Transform symbol (the transformed_match)
                else
                  (symbol, remember h1 symbol symbol,
                   t @ t2 @ [Log WARNING (No_mapping symbol)])))))))))))"

definition clear_symbol_cache :: "handler \<Rightarrow> handler \<times> event list" where
  "clear_symbol_cache h = (h\<lparr>symbol_cache := Map.empty\<rparr>, [Log INFO Cache_cleared])"


subsection \<open>Orders\<close>

text \<open>
  The signal dictionary, as \<^verbatim>\<open>server.py\<close> builds it: the symbol is a string, the action a
  string when present, the numeric entries floats when present. An absent key is \<open>None\<close>.
\<close>

record signal =
  sig_action :: "string option"
  sig_symbol :: string
  sig_volume :: "real option"
  sig_price :: "real option"
  sig_stop_loss :: "real option"
  sig_take_profit :: "real option"

text \<open>\<^verbatim>\<open>signal.get(key, default)\<close> on a numeric entry.\<close>

definition get_float :: "real option \<Rightarrow> real \<Rightarrow> real" where
  "get_float entry dflt = (case entry of None \<Rightarrow> dflt | Some v \<Rightarrow> v)"

definition verify_symbol :: "broker \<Rightarrow> string \<Rightarrow> bool \<times> event list" where
  "verify_symbol br symbol =
     (case symbol_info br symbol of
        Raised \<Rightarrow> (False, [Broker (Symbol_info symbol), Log ERROR Symbol_verify_error])
      | Returned None \<Rightarrow> (False, [Broker (Symbol_info symbol)])
      | Returned (Some info) \<Rightarrow>
          (if \<not> info_visible info then
             (case symbol_select br symbol of
                Raised \<Rightarrow>
                  (False, [Broker (Symbol_info symbol), Broker (Symbol_select symbol),
                           Log ERROR Symbol_verify_error])
              | Returned selected \<Rightarrow>
                  (if \<not> selected then
                     (False, [Broker (Symbol_info symbol), Broker (Symbol_select symbol),
                              Log WARNING (Symbol_warning symbol)])
                   else (True, [Broker (Symbol_info symbol), Broker (Symbol_select symbol)])))
           else (True, [Broker (Symbol_info symbol)])))"

text \<open>The \<^verbatim>\<open>if\<close>/\<^verbatim>\<open>elif\<close> chain of \<^verbatim>\<open>send_order\<close> from the action to the order type;
  \<open>None\<close> is its \<^verbatim>\<open>else\<close> branch.\<close>

definition order_type_of :: "string option \<Rightarrow> int option" where
  "order_type_of action =
     (if action = Some ''BUY'' \<or> action = Some ''Long'' then Some ORDER_TYPE_BUY
      else if action = Some ''SELL'' \<or> action = Some ''Short'' then Some ORDER_TYPE_SELL
      else if action = Some ''BUY_LIMIT'' then Some ORDER_TYPE_BUY_LIMIT
      else if action = Some ''SELL_LIMIT'' then Some ORDER_TYPE_SELL_LIMIT
      else if action = Some ''BUY_STOP'' then Some ORDER_TYPE_BUY_STOP
      else if action = Some ''SELL_STOP'' then Some ORDER_TYPE_SELL_STOP
      else None)"

definition order_request :: "string \<Rightarrow> real \<Rightarrow> int \<Rightarrow> real \<Rightarrow> real \<Rightarrow> real \<Rightarrow> request" where
  "order_request mapped_symbol volume order_type price sl tp =
     \<lparr>req_action =
        (if order_type \<in> set [ORDER_TYPE_BUY, ORDER_TYPE_SELL] then TRADE_ACTION_DEAL
         else TRADE_ACTION_PENDING),
      req_symbol = mapped_symbol,
      req_volume = volume,
      req_type = order_type,
      req_position = None,
      req_price = price,
      req_sl = Some sl,
      req_tp = Some tp,
      req_deviation = 20,
      req_magic = 123456,
      req_comment = ''TradingView Auto-Signal'',
      req_type_time = ORDER_TIME_GTC,
      req_type_filling = ORDER_FILLING_FOK\<rparr>"

text \<open>
  The end of \<^verbatim>\<open>send_order\<close>, from \<^verbatim>\<open>mt5.order_send(request)\<close> on. A result of
  \<^verbatim>\<open>None\<close> has no \<^verbatim>\<open>retcode\<close>: the attribute error is caught like any exception.
\<close>

definition submit :: "broker \<Rightarrow> handler \<Rightarrow> event list \<Rightarrow> request \<Rightarrow> bool \<times> handler \<times> event list" where
  "submit br h t request =
     (let t' = t @ [Log INFO Sending_order, Broker (Order_send request)] in
      case order_send br request of
        Raised \<Rightarrow> (False, h, t' @ [Log ERROR Exception_error])
      | Returned None \<Rightarrow> (False, h, t' @ [Log ERROR Exception_error])
      | Returned (Some result) \<Rightarrow>
          (if retcode result \<noteq> TRADE_RETCODE_DONE
           then (False, h, t' @ [Log ERROR (Order_failed (retcode result))])
           else (True, h, t' @ [Log INFO (Success (order result))])))"

definition send_order ::
    "sequence_matcher \<Rightarrow> broker \<Rightarrow> handler \<Rightarrow> signal \<Rightarrow> bool \<times> handler \<times> event list" where
  "send_order sm br h signal =
     (if \<not> connected_mt5 h then (False, h, [Log ERROR Trade_error])
      else
        let action = sig_action signal;
            original_symbol = sig_symbol signal;
            volume = get_float (sig_volume signal) 0.1;
            price = get_float (sig_price signal) 0.0;
            sl = get_float (sig_stop_loss signal) 0.0;
            tp = get_float (sig_take_profit signal) 0.0;
            (mapped_symbol, h1, t1) = map_symbol sm br h original_symbol;
            (tradeable, t2) = verify_symbol br mapped_symbol;
            t = t1 @ t2
        in
        if \<not> tradeable then (False, h1, t @ [Log ERROR (Symbol_error mapped_symbol)])
        else
        (case order_type_of action of
           None \<Rightarrow> (False, h1, t @ [Log ERROR (Unsupported_action action)])
         | Some order_type \<Rightarrow>
             (if price \<le> 0 then
                (case symbol_info_tick br mapped_symbol of
                   Raised \<Rightarrow>
                     (False, h1,
                      t @ [Broker (Symbol_info_tick mapped_symbol), Log ERROR Exception_error])
                 | Returned None \<Rightarrow>
                     (False, h1,
                      t @ [Broker (Symbol_info_tick mapped_symbol),
                           Log ERROR (Price_error mapped_symbol)])
                 | Returned (Some tk) \<Rightarrow>
                     submit br h1 (t @ [Broker (Symbol_info_tick mapped_symbol)])
                       (order_request mapped_symbol volume order_type
                          (if order_type = ORDER_TYPE_BUY then ask tk else bid tk) sl tp))
              else submit br h1 t (order_request mapped_symbol volume order_type price sl tp))))"

subsection \<open>Closing positions\<close>

definition close_request :: "position \<Rightarrow> int \<Rightarrow> real \<Rightarrow> request" where
  "close_request pos order_type price =
     \<lparr>req_action = TRADE_ACTION_DEAL,
      req_symbol = pos_symbol pos,
      req_volume = pos_volume pos,
      req_type = order_type,
      req_position = Some (ticket pos),
      req_price = price,
      req_sl = None,
      req_tp = None,
      req_deviation = 20,
      req_magic = 123456,
      req_comment = ''Auto-close position'',
      req_type_time = ORDER_TIME_GTC,
      req_type_filling = ORDER_FILLING_FOK\<rparr>"

text \<open>
  The loop over the positions. A tick of \<^verbatim>\<open>None\<close> has no \<^verbatim>\<open>bid\<close>, a result of
  \<^verbatim>\<open>None\<close> no \<^verbatim>\<open>retcode\<close>: both raise, and the \<^verbatim>\<open>except\<close> clause around the whole
  method ends the loop with \<^verbatim>\<open>False\<close>. A return code other than \<^verbatim>\<open>TRADE_RETCODE_DONE\<close>
  is logged and the loop goes on.
\<close>

fun close_loop :: "broker \<Rightarrow> position list \<Rightarrow> bool \<times> event list" where
  "close_loop br [] = (True, [])"
| "close_loop br (pos # rest) =
     (let order_type =
            (if pos_type pos = ORDER_TYPE_BUY then ORDER_TYPE_SELL else ORDER_TYPE_BUY)
      in
      case symbol_info_tick br (pos_symbol pos) of
        Raised \<Rightarrow> (False, [Broker (Symbol_info_tick (pos_symbol pos)), Log ERROR Close_exception])
      | Returned None \<Rightarrow>
          (False, [Broker (Symbol_info_tick (pos_symbol pos)), Log ERROR Close_exception])
      | Returned (Some tk) \<Rightarrow>
          (let price = (if order_type = ORDER_TYPE_SELL then bid tk else ask tk);
               request = close_request pos order_type price;
               t = [Broker (Symbol_info_tick (pos_symbol pos)), Log INFO (Close_setup (ticket pos)),
                    Broker (Order_send request)]
           in
           case order_send br request of
             Raised \<Rightarrow> (False, t @ [Log ERROR Close_exception])
           | Returned None \<Rightarrow> (False, t @ [Log ERROR Close_exception])
           | Returned (Some result) \<Rightarrow>
               (let (ok, t') = close_loop br rest
                in (ok,
                    t @ [if retcode result \<noteq> TRADE_RETCODE_DONE
                         then Log ERROR (Close_error (ticket pos))
                         else Log INFO (Close_success (ticket pos))] @ t'))))"

definition close_positions ::
    "sequence_matcher \<Rightarrow> broker \<Rightarrow> handler \<Rightarrow> string option \<Rightarrow> bool \<times> handler \<times> event list" where
  "close_positions sm br h symbol0 =
     (let (symbol, h1, t1) =
            (if truthy symbol0
             then (let (mapped, h', t') = map_symbol sm br h (the symbol0)
                   in (Some mapped, h', t'))
             else (symbol0, h, []));
          t = t1 @ [Log INFO (Close_request symbol), Broker (Positions_get symbol)]
      in
      case positions_get br symbol of
        Raised \<Rightarrow> (False, h1, t @ [Log ERROR Close_exception])
      | Returned None \<Rightarrow> (True, h1, t @ [Log INFO Close_info_none])
      | Returned (Some positions) \<Rightarrow>
          (if positions = [] then (True, h1, t @ [Log INFO Close_info_none])
           else (let (ok, t') = close_loop br positions
                 in (ok, h1, t @ [Log INFO (Close_info_found (length positions))] @ t'))))"

section \<open>A test fixture\<close>

text \<open>
  The universe of the specification's scenario, a terminal that knows these three symbols
  and quotes 1.1000/1.1002 on each, and a stand-in for the similarity library that scores
  two strings by their lengths alone (the library's \<^verbatim>\<open>real_quick_ratio\<close> formula). The
  fixture is used in closed examples only; the general theorems are about every terminal
  and every similarity score.
\<close>

definition scenario_symbols :: "string list" where
  "scenario_symbols = [''XAUUSDm'', ''EURUSD'', ''BTCUSD.pro'']"

definition scenario_info :: "string \<Rightarrow> symbol_info option reply" where
  "scenario_info s =
     Returned (if s \<in> set scenario_symbols
               then Some \<lparr>info_description = None, info_visible = True\<rparr> else None)"

definition scenario_tick :: "string \<Rightarrow> tick option reply" where
  "scenario_tick s =
     Returned (if s \<in> set scenario_symbols then Some \<lparr>bid = 1.1000, ask = 1.1002\<rparr> else None)"

text \<open>The terminal accepts every order except those on position 2.\<close>

definition scenario_send :: "request \<Rightarrow> order_result option reply" where
  "scenario_send r =
     Returned (Some \<lparr>retcode = (if req_position r = Some 2 then 10006 else TRADE_RETCODE_DONE),
                     order = 1\<rparr>)"

definition scenario_positions :: "position list" where
  "scenario_positions =
     [\<lparr>ticket = 1, pos_symbol = ''EURUSD'', pos_type = 0, pos_volume = 0.1\<rparr>,
      \<lparr>ticket = 2, pos_symbol = ''XAUUSDm'', pos_type = 1, pos_volume = 0.2\<rparr>,
      \<lparr>ticket = 3, pos_symbol = ''EURUSD'', pos_type = 1, pos_volume = 0.3\<rparr>]"

definition scenario_positions_get :: "string option \<Rightarrow> position list option reply" where
  "scenario_positions_get filt =
     Returned (Some (case filt of
                       None \<Rightarrow> scenario_positions
                     | Some s \<Rightarrow> filter (\<lambda>p. pos_symbol p = s) scenario_positions))"

definition scenario_select :: "string \<Rightarrow> bool reply" where
  "scenario_select s = Returned (s \<in> set scenario_symbols)"

definition scenario_broker :: broker where
  "scenario_broker =
     \<lparr>symbols_get = Returned (Some scenario_symbols),
      symbol_info = scenario_info,
      symbol_select = scenario_select,
      symbol_info_tick = scenario_tick,
      order_send = scenario_send,
      positions_get = scenario_positions_get\<rparr>"

definition length_ratio :: "string \<Rightarrow> string \<Rightarrow> real" where
  "length_ratio a b =
     (if length a + length b = 0 then 1
      else 2 * real (min (length a) (length b)) / real (length a + length b))"

definition length_matcher :: sequence_matcher where
  "length_matcher =
     \<lparr>real_quick_ratio = length_ratio, quick_ratio = length_ratio, ratio = length_ratio\<rparr>"

definition scenario_handler :: handler where
  "scenario_handler =
     \<lparr>connected_mt5 = True, symbol_cache = Map.empty, broker_symbols = scenario_symbols\<rparr>"


definition market_buy :: signal where
  "market_buy =
     \<lparr>sig_action = Some ''BUY'', sig_symbol = ''EURUSD'', sig_volume = None, sig_price = None,
      sig_stop_loss = None, sig_take_profit = None\<rparr>"

text \<open>The same terminal, except that it has no quote for \<^verbatim>\<open>XAUUSDm\<close>.\<close>

definition quoteless_tick :: "string \<Rightarrow> tick option reply" where
  "quoteless_tick s = (if s = ''XAUUSDm'' then Returned None else scenario_tick s)"

definition quoteless_broker :: broker where
  "quoteless_broker = scenario_broker\<lparr>symbol_info_tick := quoteless_tick\<rparr>"

text \<open>
  What \<^verbatim>\<open>close_positions\<close> makes of the answer of \<^verbatim>\<open>positions_get\<close>: \<^verbatim>\<open>None\<close> and the
  empty tuple both are no position at all.
\<close>

definition listed :: "position list option \<Rightarrow> position list" where
  "listed fetched = (case fetched of None \<Rightarrow> [] | Some positions \<Rightarrow> positions)"

section \<open>Normalisation is not idempotent\<close>

lemma upper_alnum_not_lower_table:
  "list_all (\<lambda>c. c \<notin> set ''abcdefghijklmnopqrstuvwxyz'') ''ABCDEFGHIJKLMNOPQRSTUVWXYZ0123456789''"
  by code_simp

lemma upper_char_id: "is_upper_alnum c \<Longrightarrow> upper_char c = c"
proof -
  assume "is_upper_alnum c"
  then have "c \<notin> set ''abcdefghijklmnopqrstuvwxyz''"
    using upper_alnum_not_lower_table unfolding is_upper_alnum_def list_all_iff by blast
  then have "map_of (zip ''abcdefghijklmnopqrstuvwxyz'' ''ABCDEFGHIJKLMNOPQRSTUVWXYZ'') c = None"
    by (subst map_of_zip_is_None) simp_all
  then show ?thesis by (simp only: upper_char_def option.case)
qed

lemma upper_id: "\<forall>c \<in> set r. is_upper_alnum c \<Longrightarrow> upper r = r"
  unfolding upper_def by (rule map_idI) (simp add: upper_char_id)

lemma endswith_set: "endswith n p \<Longrightarrow> set p \<subseteq> set n"
  unfolding endswith_def by (metis set_drop_subset)

lemma startswith_set: "startswith n p \<Longrightarrow> set p \<subseteq> set n"
  unfolding startswith_def by (metis set_take_subset)

lemma not_alnum_marks:
  "\<not> is_upper_alnum CHR ''.''" "\<not> is_upper_alnum CHR ''_''" "\<not> is_upper_alnum CHR ''-''"
  by (simp_all add: is_upper_alnum_def)

lemma remove_suffix_alnum:
  assumes "\<forall>c \<in> set r. is_upper_alnum c"
  shows "remove_suffix suffixes_to_remove r = remove_suffix [''M'', ''PRO''] r"
proof -
  have no: "\<not> endswith r p" if "CHR ''.'' \<in> set p \<or> CHR ''_'' \<in> set p \<or> CHR ''-'' \<in> set p" for p
    using that assms endswith_set [of r p] not_alnum_marks by blast
  show ?thesis
    by (simp add: suffixes_to_remove_def no)
qed

lemma remove_suffix_set: "set (remove_suffix ps n) \<subseteq> set n"
  by (induction ps) (auto dest: in_set_takeD)

lemma remove_prefix_alnum:
  assumes "\<forall>c \<in> set r. is_upper_alnum c"
  shows "remove_prefix prefixes_to_remove r = r"
proof -
  have no: "\<not> startswith r p" if "CHR ''_'' \<in> set p" for p
    using that assms startswith_set [of r p] not_alnum_marks by blast
  show ?thesis
    by (simp add: prefixes_to_remove_def no)
qed

lemma normalize_sym_alnum: "\<forall>c \<in> set (normalize_sym s). is_upper_alnum c"
  by (simp add: normalize_sym_def)

lemma normalize_sym_on_alnum:
  assumes "\<forall>c \<in> set r. is_upper_alnum c"
  shows "normalize_sym r = remove_suffix [''M'', ''PRO''] r"
proof (cases "r = []")
  case True
  then show ?thesis by (simp add: normalize_sym_def)
next
  case False
  let ?cut = "remove_suffix [''M'', ''PRO''] r"
  have cut: "\<forall>c \<in> set ?cut. is_upper_alnum c"
    using assms remove_suffix_set [of "[''M'', ''PRO'']" r] by blast
  have "normalize_sym r =
          filter is_upper_alnum (remove_prefix prefixes_to_remove (remove_suffix suffixes_to_remove r))"
    using False by (simp add: normalize_sym_def upper_id [OF assms])
  also have "\<dots> = filter is_upper_alnum (remove_prefix prefixes_to_remove ?cut)"
    by (simp only: remove_suffix_alnum [OF assms])
  also have "\<dots> = filter is_upper_alnum ?cut"
    by (simp only: remove_prefix_alnum [OF cut])
  also have "\<dots> = ?cut"
    using cut by (simp add: filter_id_conv)
  finally show ?thesis .
qed

lemma remove_suffix_M_PRO_fixed:
  "remove_suffix [''M'', ''PRO''] r = r \<longleftrightarrow> \<not> endswith r ''M'' \<and> \<not> endswith r ''PRO''"
proof -
  have "take (length r - length p) r \<noteq> r" if "endswith r p" "p \<noteq> []" for p
  proof
    assume "take (length r - length p) r = r"
    then have "length (take (length r - length p) r) = length r" by (rule arg_cong)
    then have eq: "min (length r) (length r - length p) = length r" by (simp only: length_take)
    have le: "length p \<le> length r" using that(1) by (simp add: endswith_def)
    have pos: "0 < length p" using that(2) by simp
    from eq le pos show False by arith
  qed
  from this [of "''M''"] this [of "''PRO''"] show ?thesis by auto
qed

text \<open>
  C4, as amended. The output of \<open>normalize_sym\<close> has only the characters \<^verbatim>\<open>A-Z0-9\<close>,
  and a second pass cuts one more trailing \<^verbatim>\<open>M\<close>, or else one more trailing \<^verbatim>\<open>PRO\<close>,
  off it and does nothing else. So \<open>normalize_sym (normalize_sym s) = normalize_sym s\<close> holds
  exactly when \<open>normalize_sym s\<close> ends neither in \<^verbatim>\<open>M\<close> nor in \<^verbatim>\<open>PRO\<close>.
\<close>

theorem normalize_sym_twice:
  "normalize_sym (normalize_sym s) = remove_suffix [''M'', ''PRO''] (normalize_sym s)
   \<and> (normalize_sym (normalize_sym s) = normalize_sym s
        \<longleftrightarrow> \<not> endswith (normalize_sym s) ''M'' \<and> \<not> endswith (normalize_sym s) ''PRO'')"
  using normalize_sym_on_alnum [OF normalize_sym_alnum, of s]
  by (simp only: remove_suffix_M_PRO_fixed simp_thms)

theorem normalize_sym_twice_witness:
  "normalize_sym (normalize_sym ''XAUUSDm'') = normalize_sym ''XAUUSDm''
   \<and> normalize_sym ''XAUUSDm'' = ''XAUUSD''"
proof -
  have n: "normalize_sym ''XAUUSDm'' = ''XAUUSD''" by code_simp
  have "\<not> endswith ''XAUUSD'' ''M'' \<and> \<not> endswith ''XAUUSD'' ''PRO''" by code_simp
  with normalize_sym_twice [of "''XAUUSDm''"] n show ?thesis by simp
qed

text \<open>
  C4, as stated, fails on the ticker \<^verbatim>\<open>MMM\<close>: one pass gives \<^verbatim>\<open>MM\<close>, the next
  \<^verbatim>\<open>M\<close>.
\<close>

theorem normalize_sym_not_idempotent:
  "normalize_sym (normalize_sym ''MMM'') \<noteq> normalize_sym ''MMM''"
  by code_simp

section \<open>Orders without a connection\<close>

text \<open>
  C8. When the handler is not connected, \<open>send_order\<close> returns \<open>False\<close>, leaves the handler
  as it was (so no cache entry is written), logs the one error line, and makes no call to the
  broker: the symbol is not resolved.
\<close>

theorem send_order_not_connected:
  "\<not> connected_mt5 h \<Longrightarrow>
     send_order sm br h signal = (False, h, [Log ERROR Trade_error])
     \<and> broker_calls (snd (snd (send_order sm br h signal))) = []"
  by (simp add: send_order_def)

theorem send_order_not_connected_witness:
  "\<not> connected_mt5 (scenario_handler\<lparr>connected_mt5 := False\<rparr>)
   \<and> send_order length_matcher scenario_broker (scenario_handler\<lparr>connected_mt5 := False\<rparr>) market_buy
       = (False, scenario_handler\<lparr>connected_mt5 := False\<rparr>, [Log ERROR Trade_error])
   \<and> symbol_cache (fst (snd (send_order length_matcher scenario_broker
         (scenario_handler\<lparr>connected_mt5 := False\<rparr>) market_buy))) ''EURUSD'' = None"
  using send_order_not_connected
          [of "scenario_handler\<lparr>connected_mt5 := False\<rparr>" length_matcher scenario_broker market_buy]
  by (simp add: scenario_handler_def)

section \<open>Symbol resolution\<close>

lemma order_sends_append [simp]: "order_sends (xs @ ys) = order_sends xs @ order_sends ys"
  by (induction xs rule: order_sends.induct) simp_all

lemma broker_calls_append [simp]: "broker_calls (xs @ ys) = broker_calls xs @ broker_calls ys"
  by (induction xs rule: broker_calls.induct) simp_all

lemma cache_broker_symbols_keeps:
  "cache_broker_symbols br h = (h1, t1) \<Longrightarrow>
     symbol_cache h1 = symbol_cache h \<and> connected_mt5 h1 = connected_mt5 h \<and> order_sends t1 = []
     \<and> (\<forall>m. Log WARNING m \<notin> set t1)"
  by (auto simp: cache_broker_symbols_def split: reply.splits option.splits)

lemma description_match_quiet:
  "description_match br symbol syms = (r, t) \<Longrightarrow>
     order_sends t = [] \<and> (\<forall>m. Log WARNING m \<notin> set t)"
  by (induction syms arbitrary: r t)
     (auto split: reply.splits option.splits if_splits prod.splits)

lemma map_symbol_empty: "map_symbol sm br h [] = ([], h, [Log ERROR Symbol_map_error])"
  by (simp add: map_symbol_def)

lemma map_symbol_cached:
  "s \<noteq> [] \<Longrightarrow> symbol_cache h (strip s) = Some c \<Longrightarrow>
     map_symbol sm br h s =
       (c, h, [Log INFO (Symbol_mapping (strip s)), Log INFO (Result Cached (strip s) c)])"
  by (simp add: map_symbol_def Let_def)

text \<open>
  A lookup that misses the cache: whichever branch of the cascade returns, it has stored
  the returned string under the stripped symbol, it has changed nothing else of the cache,
  it has sent no order, and the two warnings are logged only where the stripped symbol
  itself is returned.
\<close>

lemma map_symbol_uncached:
  assumes "s \<noteq> []" "symbol_cache h (strip s) = None" "map_symbol sm br h s = (r, h', t)"
  shows "\<exists>h1. h' = remember h1 (strip s) r \<and> symbol_cache h1 = symbol_cache h
            \<and> connected_mt5 h1 = connected_mt5 h"
    and "order_sends t = []"
    and "Log WARNING (No_mapping (strip s)) \<in> set t \<or> Log WARNING Symbol_map_warning \<in> set t
           \<Longrightarrow> r = strip s"
  using assms
  by (auto simp: map_symbol_def Let_def found_def
       dest!: cache_broker_symbols_keeps description_match_quiet
       split: option.splits if_splits prod.splits)

lemma map_symbol_writes:
  assumes "s \<noteq> []" "map_symbol sm br h s = (r, h', t)"
  shows "symbol_cache h' (strip s) = Some r"
proof (cases "symbol_cache h (strip s)")
  case None
  from map_symbol_uncached(1) [OF assms(1) None assms(2)] show ?thesis
    by (auto simp: remember_def)
next
  case (Some c)
  with assms map_symbol_cached [OF assms(1) Some, of sm br] show ?thesis by simp
qed

text \<open>Resolution only ever adds to the cache, and never touches the connection flag.\<close>

lemma map_symbol_cache_grows:
  assumes "map_symbol sm br h s = (r, h', t)"
  shows "symbol_cache h \<subseteq>\<^sub>m symbol_cache h' \<and> connected_mt5 h' = connected_mt5 h"
proof (cases "s = []")
  case True
  with assms show ?thesis by (simp add: map_symbol_empty)
next
  case False
  show ?thesis
  proof (cases "symbol_cache h (strip s)")
    case None
    from map_symbol_uncached(1) [OF False None assms] obtain h1
      where "h' = remember h1 (strip s) r" "symbol_cache h1 = symbol_cache h"
            "connected_mt5 h1 = connected_mt5 h" by blast
    with None show ?thesis
      by (auto simp: remember_def map_le_def)
  next
    case (Some c)
    with assms map_symbol_cached [OF False Some, of sm br] show ?thesis by simp
  qed
qed

lemma map_symbol_no_orders:
  assumes "map_symbol sm br h s = (r, h', t)"
  shows "order_sends t = []"
proof (cases "s = []")
  case True
  with assms show ?thesis by (auto simp add: map_symbol_empty)
next
  case False
  show ?thesis
  proof (cases "symbol_cache h (strip s)")
    case None
    from map_symbol_uncached(2) [OF False None assms] show ?thesis .
  next
    case (Some c)
    with assms map_symbol_cached [OF False Some, of sm br] show ?thesis by auto
  qed
qed

lemmas string_defs = strip_def is_space_def upper_def upper_char_def normalize_sym_def
  suffixes_to_remove_def prefixes_to_remove_def endswith_def startswith_def is_upper_alnum_def

text \<open>
  C1, as amended. With the universe \<^verbatim>\<open>["XAUUSDm", "EURUSD", "BTCUSD.pro"]\<close> and an empty
  cache, whatever the terminal and the similarity library are: \<^verbatim>\<open>XAUUSD\<close> resolves to
  \<^verbatim>\<open>XAUUSDm\<close> and \<^verbatim>\<open>BTCUSD\<close> to \<^verbatim>\<open>BTCUSD.pro\<close>, both by the normalized match (the
  broker names lose their suffix \<^verbatim>\<open>M\<close> or \<^verbatim>\<open>PRO\<close> under normalisation), and
  \<^verbatim>\<open>eurusd\<close> resolves to \<^verbatim>\<open>EURUSD\<close> by the case-insensitive match. Each run stores its
  pair in the cache and logs the line of the strategy that fired.
\<close>

theorem scenario_resolution:
  "map_symbol sm br scenario_handler ''XAUUSD''
     = (''XAUUSDm'', remember scenario_handler ''XAUUSD'' ''XAUUSDm'',
        [Log INFO (Symbol_mapping ''XAUUSD''), Log INFO (Result Normalized ''XAUUSD'' ''XAUUSDm'')])
   \<and> map_symbol sm br scenario_handler ''eurusd''
     = (''EURUSD'', remember scenario_handler ''eurusd'' ''EURUSD'',
        [Log INFO (Symbol_mapping ''eurusd''), Log INFO (Result Case_match ''eurusd'' ''EURUSD'')])
   \<and> map_symbol sm br scenario_handler ''BTCUSD''
     = (''BTCUSD.pro'', remember scenario_handler ''BTCUSD'' ''BTCUSD.pro'',
        [Log INFO (Symbol_mapping ''BTCUSD''),
         Log INFO (Result Normalized ''BTCUSD'' ''BTCUSD.pro'')])"
  by (simp add: map_symbol_def Let_def found_def scenario_handler_def scenario_symbols_def
        string_defs)

text \<open>
  C1, as stated, fails: on \<^verbatim>\<open>XAUUSD\<close> the prefix strategy is not the one that fires, and on
  \<^verbatim>\<open>BTCUSD\<close> the contains strategy is not; the normalized match, which comes earlier in
  the cascade, answers both.
\<close>

theorem scenario_prefix_not_reached:
  "Log INFO (Result Prefix ''XAUUSD'' ''XAUUSDm'')
     \<notin> set (snd (snd (map_symbol length_matcher scenario_broker scenario_handler ''XAUUSD'')))
   \<and> Log INFO (Result Normalized ''XAUUSD'' ''XAUUSDm'')
     \<in> set (snd (snd (map_symbol length_matcher scenario_broker scenario_handler ''XAUUSD'')))
   \<and> Log INFO (Result Contains ''BTCUSD'' ''BTCUSD.pro'')
     \<notin> set (snd (snd (map_symbol length_matcher scenario_broker scenario_handler ''BTCUSD'')))
   \<and> Log INFO (Result Normalized ''BTCUSD'' ''BTCUSD.pro'')
     \<in> set (snd (snd (map_symbol length_matcher scenario_broker scenario_handler ''BTCUSD'')))"
  by code_simp

text \<open>
  C2. After a first call \<open>map_symbol \<dots> s\<close> has returned \<open>r1\<close> and left the handler \<open>h1\<close>,
  a later call on the same \<open>s\<close> from any handler \<open>h2\<close> whose cache still holds the entries of
  \<open>h1\<close> (nothing was cleared in between), with any terminal and any similarity library,
  returns \<open>r1\<close> again, leaves \<open>h2\<close> as it is, makes no call to the broker, and logs no
  result line of a cascade strategy and no warning: only the cached result (or, for the
  empty string, the error line).
\<close>

theorem cached_lookup_repeats:
  assumes first: "map_symbol sm br h s = (r1, h1, t1)"
    and later: "symbol_cache h1 \<subseteq>\<^sub>m symbol_cache h2"
  shows "\<exists>t2. map_symbol sm' br' h2 s = (r1, h2, t2) \<and> broker_calls t2 = []
            \<and> (\<forall>strat a b. Log INFO (Result strat a b) \<in> set t2 \<longrightarrow> strat = Cached)
            \<and> (\<forall>m. Log WARNING m \<notin> set t2)"
proof (cases "s = []")
  case True
  with first show ?thesis by (auto simp add: map_symbol_empty)
next
  case False
  from map_symbol_writes [OF False first] have "symbol_cache h1 (strip s) = Some r1" .
  with later have "symbol_cache h2 (strip s) = Some r1"
    by (auto simp: map_le_def dom_def)
  from map_symbol_cached [OF False this, of sm' br'] show ?thesis by simp
qed

theorem cached_lookup_repeats_witness:
  "map_symbol length_matcher scenario_broker (scenario_handler\<lparr>broker_symbols := []\<rparr>) ''XAUUSD''
     = (''XAUUSDm'', remember scenario_handler ''XAUUSD'' ''XAUUSDm'',
        [Log INFO (Symbol_mapping ''XAUUSD''), Broker Symbols_get, Log INFO (Symbol_cache 3),
         Log INFO (Result Normalized ''XAUUSD'' ''XAUUSDm'')])
   \<and> map_symbol length_matcher scenario_broker
         (remember scenario_handler ''XAUUSD'' ''XAUUSDm'') ''XAUUSD''
     = (''XAUUSDm'', remember scenario_handler ''XAUUSD'' ''XAUUSDm'',
        [Log INFO (Symbol_mapping ''XAUUSD''), Log INFO (Result Cached ''XAUUSD'' ''XAUUSDm'')])"
proof -
  let ?h1 = "remember scenario_handler ''XAUUSD'' ''XAUUSDm''"
  have first:
    "map_symbol length_matcher scenario_broker (scenario_handler\<lparr>broker_symbols := []\<rparr>) ''XAUUSD''
     = (''XAUUSDm'', ?h1,
        [Log INFO (Symbol_mapping ''XAUUSD''), Broker Symbols_get, Log INFO (Symbol_cache 3),
         Log INFO (Result Normalized ''XAUUSD'' ''XAUUSDm'')])"
    by (simp add: map_symbol_def Let_def found_def scenario_handler_def scenario_symbols_def
          cache_broker_symbols_def scenario_broker_def remember_def string_defs)
  have later: "symbol_cache ?h1 \<subseteq>\<^sub>m symbol_cache ?h1" by (rule map_le_refl)
  from cached_lookup_repeats [OF first later, of length_matcher scenario_broker]
  obtain t2 where
    run: "map_symbol length_matcher scenario_broker ?h1 ''XAUUSD'' = (''XAUUSDm'', ?h1, t2)"
    by blast
  have "map_symbol length_matcher scenario_broker ?h1 ''XAUUSD''
     = (''XAUUSDm'', ?h1,
        [Log INFO (Symbol_mapping ''XAUUSD''), Log INFO (Result Cached ''XAUUSD'' ''XAUUSDm'')])"
    using run by (simp add: map_symbol_def Let_def remember_def string_defs)
  with first show ?thesis by simp
qed

lemma map_symbol_fallback:
  assumes ne: "s \<noteq> []" and miss: "symbol_cache h (strip s) = None"
    and run: "map_symbol sm br h s = (r, h', t)"
    and exact: "strip s \<notin> set (broker_symbols h')"
    and caseless: "\<forall>b \<in> set (broker_symbols h'). upper b \<noteq> upper (strip s)"
    and normalized: "\<forall>b \<in> set (broker_symbols h'). normalize_sym b \<noteq> normalize_sym (strip s)"
    and prefixed: "\<forall>b \<in> set (broker_symbols h'). \<not> startswith (upper b) (upper (strip s))"
    and contained: "\<forall>b \<in> set (broker_symbols h'). \<not> contains (upper b) (upper (strip s))"
    and fuzzy: "\<not> truthy (fuzzy_map sm (strip s) (broker_symbols h'))"
    and described: "\<not> truthy (fst (description_match br (strip s) (broker_symbols h')))"
    and transformed: "\<not> (truthy (transform_symbol (broker_symbols h') (strip s))
                         \<and> the (transform_symbol (broker_symbols h') (strip s))
                             \<in> set (broker_symbols h'))"
  shows "r = strip s
         \<and> (Log WARNING (No_mapping (strip s)) \<in> set t \<or> Log WARNING Symbol_map_warning \<in> set t)"
proof -
  obtain h1 t1 where refresh:
    "(if broker_symbols h = [] then cache_broker_symbols br h else (h, [])) = (h1, t1)"
    by (cases "if broker_symbols h = [] then cache_broker_symbols br h else (h, [])") auto
  from map_symbol_uncached(1) [OF ne miss run] obtain h0
    where h': "h' = remember h0 (strip s) r" by blast
  have syms: "broker_symbols h' = broker_symbols h1"
    using run ne miss refresh
    by (auto simp: map_symbol_def Let_def found_def remember_def
          split: option.splits if_splits prod.splits)
  note fails = exact caseless normalized prefixed contained fuzzy described transformed
  have f1: "find (\<lambda>b. upper b = upper (strip s)) (broker_symbols h1) = None"
    using caseless by (simp add: find_None_iff syms)
  have f2: "find (\<lambda>b. normalize_sym b = normalize_sym (strip s)) (broker_symbols h1) = None"
    using normalized by (simp add: find_None_iff syms)
  have f3: "find (\<lambda>b. startswith (upper b) (upper (strip s))) (broker_symbols h1) = None"
    using prefixed by (simp add: find_None_iff syms)
  have f4: "find (\<lambda>b. contains (upper b) (upper (strip s))) (broker_symbols h1) = None"
    using contained by (simp add: find_None_iff syms)
  have e: "strip s \<notin> set (broker_symbols h1)"
    using exact by (simp add: syms)
  have f5: "\<not> truthy (fuzzy_map sm (strip s) (broker_symbols h1))"
    using fuzzy by (simp add: syms)
  obtain d t2 where desc: "description_match br (strip s) (broker_symbols h1) = (d, t2)"
    by (cases "description_match br (strip s) (broker_symbols h1)") auto
  have f6: "\<not> truthy d"
    using described desc by (simp add: syms)
  have f7: "\<not> (truthy (transform_symbol (broker_symbols h1) (strip s))
               \<and> the (transform_symbol (broker_symbols h1) (strip s)) \<in> set (broker_symbols h1))"
    using transformed by (simp add: syms)
  have "map_symbol sm br h s =
          (if broker_symbols h1 = []
           then (strip s, remember h1 (strip s) (strip s),
                 (Log INFO (Symbol_mapping (strip s)) # t1) @ [Log WARNING Symbol_map_warning])
           else (strip s, remember h1 (strip s) (strip s),
                 (Log INFO (Symbol_mapping (strip s)) # t1) @ t2
                   @ [Log WARNING (No_mapping (strip s))]))"
    using ne miss refresh e f1 f2 f3 f4 f5 f6 f7 desc
    by (auto simp add: map_symbol_def Let_def)
  with run show ?thesis
    by (auto split: if_splits)
qed
text \<open>
  C3, as amended. \<open>map_symbol\<close> has no failing branch: it returns a string on every input.
  On the empty string it returns the empty string and leaves the handler, cache included,
  as it was. On every other string \<open>s\<close> the cache afterwards maps \<open>strip s\<close> (the symbol
  without its surrounding white space) to the returned string, after a match, a cache hit
  and a fallback alike. And when every matching strategy fails on \<open>strip s\<close> (it is not in
  the cache; in the universe the handler then holds no symbol equals it, equals it up to
  case, has its normal form, starts with it or contains it; the fuzzy, the description and
  the transformation strategies give nothing usable), the returned string is \<open>strip s\<close> and
  a warning is logged.
\<close>

theorem map_symbol_cache_entry:
  "(s = [] \<longrightarrow> map_symbol sm br h s = (s, h, [Log ERROR Symbol_map_error]))
   \<and> (s \<noteq> [] \<longrightarrow>
        (case map_symbol sm br h s of
           (r, h', t) \<Rightarrow>
             symbol_cache h' (strip s) = Some r
             \<and> (symbol_cache h (strip s) = None
                  \<and> strip s \<notin> set (broker_symbols h')
                  \<and> (\<forall>b \<in> set (broker_symbols h'). upper b \<noteq> upper (strip s))
                  \<and> (\<forall>b \<in> set (broker_symbols h'). normalize_sym b \<noteq> normalize_sym (strip s))
                  \<and> (\<forall>b \<in> set (broker_symbols h'). \<not> startswith (upper b) (upper (strip s)))
                  \<and> (\<forall>b \<in> set (broker_symbols h'). \<not> contains (upper b) (upper (strip s)))
                  \<and> \<not> truthy (fuzzy_map sm (strip s) (broker_symbols h'))
                  \<and> \<not> truthy (fst (description_match br (strip s) (broker_symbols h')))
                  \<and> \<not> (truthy (transform_symbol (broker_symbols h') (strip s))
                         \<and> the (transform_symbol (broker_symbols h') (strip s))
                             \<in> set (broker_symbols h'))
                  \<longrightarrow> r = strip s
                      \<and> (Log WARNING (No_mapping (strip s)) \<in> set t
                           \<or> Log WARNING Symbol_map_warning \<in> set t))))"
proof (intro conjI impI)
  assume "s = []"
  then show "map_symbol sm br h s = (s, h, [Log ERROR Symbol_map_error])"
    by (simp add: map_symbol_empty)
next
  assume ne: "s \<noteq> []"
  obtain r h' t where run: "map_symbol sm br h s = (r, h', t)"
    by (cases "map_symbol sm br h s") auto
  have entry: "symbol_cache h' (strip s) = Some r"
    using ne run by (rule map_symbol_writes)
  have "r = strip s
        \<and> (Log WARNING (No_mapping (strip s)) \<in> set t \<or> Log WARNING Symbol_map_warning \<in> set t)"
    if "symbol_cache h (strip s) = None
        \<and> strip s \<notin> set (broker_symbols h')
        \<and> (\<forall>b \<in> set (broker_symbols h'). upper b \<noteq> upper (strip s))
        \<and> (\<forall>b \<in> set (broker_symbols h'). normalize_sym b \<noteq> normalize_sym (strip s))
        \<and> (\<forall>b \<in> set (broker_symbols h'). \<not> startswith (upper b) (upper (strip s)))
        \<and> (\<forall>b \<in> set (broker_symbols h'). \<not> contains (upper b) (upper (strip s)))
        \<and> \<not> truthy (fuzzy_map sm (strip s) (broker_symbols h'))
        \<and> \<not> truthy (fst (description_match br (strip s) (broker_symbols h')))
        \<and> \<not> (truthy (transform_symbol (broker_symbols h') (strip s))
               \<and> the (transform_symbol (broker_symbols h') (strip s))
                   \<in> set (broker_symbols h'))"
    using that map_symbol_fallback [OF ne _ run] by blast
  with entry run
  show "case map_symbol sm br h s of
           (r, h', t) \<Rightarrow>
             symbol_cache h' (strip s) = Some r
             \<and> (symbol_cache h (strip s) = None
                  \<and> strip s \<notin> set (broker_symbols h')
                  \<and> (\<forall>b \<in> set (broker_symbols h'). upper b \<noteq> upper (strip s))
                  \<and> (\<forall>b \<in> set (broker_symbols h'). normalize_sym b \<noteq> normalize_sym (strip s))
                  \<and> (\<forall>b \<in> set (broker_symbols h'). \<not> startswith (upper b) (upper (strip s)))
                  \<and> (\<forall>b \<in> set (broker_symbols h'). \<not> contains (upper b) (upper (strip s)))
                  \<and> \<not> truthy (fuzzy_map sm (strip s) (broker_symbols h'))
                  \<and> \<not> truthy (fst (description_match br (strip s) (broker_symbols h')))
                  \<and> \<not> (truthy (transform_symbol (broker_symbols h') (strip s))
                         \<and> the (transform_symbol (broker_symbols h') (strip s))
                             \<in> set (broker_symbols h'))
                  \<longrightarrow> r = strip s
                      \<and> (Log WARNING (No_mapping (strip s)) \<in> set t
                           \<or> Log WARNING Symbol_map_warning \<in> set t))"
    by simp
qed

text \<open>On \<^verbatim>\<open>" ZZ "\<close> every strategy of the scenario fails, and \<^verbatim>\<open>"ZZ"\<close> comes back.\<close>

theorem map_symbol_cache_entry_witness:
  "'' ZZ '' \<noteq> []
   \<and> strip '' ZZ '' = ''ZZ''
   \<and> symbol_cache scenario_handler ''ZZ'' = None
   \<and> broker_symbols (fst (snd (map_symbol length_matcher scenario_broker scenario_handler '' ZZ '')))
       = scenario_symbols
   \<and> fst (map_symbol length_matcher scenario_broker scenario_handler '' ZZ '') = ''ZZ''
   \<and> symbol_cache (fst (snd (map_symbol length_matcher scenario_broker scenario_handler '' ZZ '')))
        ''ZZ'' = Some ''ZZ''"
proof -
  let ?run = "map_symbol length_matcher scenario_broker scenario_handler '' ZZ ''"
  have ne: "'' ZZ '' \<noteq> []" by simp
  have st: "strip '' ZZ '' = ''ZZ''" by code_simp
  have miss: "symbol_cache scenario_handler ''ZZ'' = None" by (simp add: scenario_handler_def)
  have syms: "broker_symbols (fst (snd ?run)) = scenario_symbols" by code_simp
  have fails:
    "''ZZ'' \<notin> set scenario_symbols
     \<and> (\<forall>b \<in> set scenario_symbols. upper b \<noteq> upper ''ZZ'')
     \<and> (\<forall>b \<in> set scenario_symbols. normalize_sym b \<noteq> normalize_sym ''ZZ'')
     \<and> (\<forall>b \<in> set scenario_symbols. \<not> startswith (upper b) (upper ''ZZ''))
     \<and> (\<forall>b \<in> set scenario_symbols. \<not> contains (upper b) (upper ''ZZ''))
     \<and> \<not> truthy (fuzzy_map length_matcher ''ZZ'' scenario_symbols)
     \<and> \<not> truthy (fst (description_match scenario_broker ''ZZ'' scenario_symbols))
     \<and> \<not> (truthy (transform_symbol scenario_symbols ''ZZ'')
            \<and> the (transform_symbol scenario_symbols ''ZZ'') \<in> set scenario_symbols)"
    by code_simp
  from map_symbol_cache_entry [of "'' ZZ ''" length_matcher scenario_broker scenario_handler]
  have "symbol_cache (fst (snd ?run)) ''ZZ'' = Some (fst ?run) \<and> fst ?run = ''ZZ''"
    using ne miss fails by (simp add: st syms case_prod_beta)
  with ne st miss syms show ?thesis by simp
qed
text \<open>
  C3, as stated, fails in two places. A call on the empty string writes no cache entry. A
  call on \<^verbatim>\<open>" ZZ "\<close>, which no strategy matches, returns \<^verbatim>\<open>"ZZ"\<close>, not its input, and
  leaves no entry under \<^verbatim>\<open>" ZZ "\<close>.
\<close>

theorem map_symbol_entry_not_for_input:
  "symbol_cache (fst (snd (map_symbol length_matcher scenario_broker scenario_handler []))) []
     = None
   \<and> fst (map_symbol length_matcher scenario_broker scenario_handler '' ZZ '') = ''ZZ''
   \<and> symbol_cache (fst (snd (map_symbol length_matcher scenario_broker scenario_handler '' ZZ '')))
        '' ZZ '' = None"
  by code_simp

section \<open>Orders\<close>

lemma verify_symbol_no_orders: "order_sends (snd (verify_symbol br s)) = []"
  by (simp add: verify_symbol_def split: reply.splits option.splits)

lemma submit_sends: "order_sends (snd (snd (submit br h t req))) = order_sends t @ [req]"
  by (simp add: submit_def Let_def split: reply.splits option.splits)

lemma order_type_of_buy:
  "order_type_of a = Some ot \<Longrightarrow> ot = ORDER_TYPE_BUY \<longleftrightarrow> a \<in> {Some ''BUY'', Some ''Long''}"
  by (auto simp: order_type_of_def ORDER_TYPE_BUY_def ORDER_TYPE_SELL_def ORDER_TYPE_BUY_LIMIT_def
        ORDER_TYPE_SELL_LIMIT_def ORDER_TYPE_BUY_STOP_def ORDER_TYPE_SELL_STOP_def split: if_splits)

lemma send_order_connected:
  assumes "connected_mt5 h" "map_symbol sm br h (sig_symbol signal) = (mapped, h1, t1)"
    and "verify_symbol br mapped = (tradeable, t2)"
  shows "send_order sm br h signal =
     (if \<not> tradeable then (False, h1, (t1 @ t2) @ [Log ERROR (Symbol_error mapped)])
      else
        (case order_type_of (sig_action signal) of
           None \<Rightarrow> (False, h1, (t1 @ t2) @ [Log ERROR (Unsupported_action (sig_action signal))])
         | Some order_type \<Rightarrow>
             (if get_float (sig_price signal) 0 \<le> 0 then
                (case symbol_info_tick br mapped of
                   Raised \<Rightarrow>
                     (False, h1,
                      (t1 @ t2) @ [Broker (Symbol_info_tick mapped), Log ERROR Exception_error])
                 | Returned None \<Rightarrow>
                     (False, h1,
                      (t1 @ t2) @ [Broker (Symbol_info_tick mapped), Log ERROR (Price_error mapped)])
                 | Returned (Some tk) \<Rightarrow>
                     submit br h1 ((t1 @ t2) @ [Broker (Symbol_info_tick mapped)])
                       (order_request mapped (get_float (sig_volume signal) 0.1) order_type
                          (if order_type = ORDER_TYPE_BUY then ask tk else bid tk)
                          (get_float (sig_stop_loss signal) 0) (get_float (sig_take_profit signal) 0)))
              else submit br h1 (t1 @ t2)
                     (order_request mapped (get_float (sig_volume signal) 0.1) order_type
                        (get_float (sig_price signal) 0)
                        (get_float (sig_stop_loss signal) 0) (get_float (sig_take_profit signal) 0)))))"
  using assms by (simp add: send_order_def Let_def)

text \<open>
  C7. When the action of a signal is none of \<^verbatim>\<open>BUY\<close>, \<^verbatim>\<open>Long\<close>, \<^verbatim>\<open>SELL\<close>,
  \<^verbatim>\<open>Short\<close>, \<^verbatim>\<open>BUY_LIMIT\<close>, \<^verbatim>\<open>SELL_LIMIT\<close>, \<^verbatim>\<open>BUY_STOP\<close>, \<^verbatim>\<open>SELL_STOP\<close> (a
  missing action included), \<open>send_order\<close> returns \<open>False\<close> and its run contains no call of
  \<^verbatim>\<open>order_send\<close>, whatever the handler, the terminal and the rest of the signal are.
\<close>

theorem send_order_unsupported:
  assumes "sig_action signal \<notin> {Some ''BUY'', Some ''Long'', Some ''SELL'', Some ''Short'',
             Some ''BUY_LIMIT'', Some ''SELL_LIMIT'', Some ''BUY_STOP'', Some ''SELL_STOP''}"
  shows "fst (send_order sm br h signal) = False
         \<and> order_sends (snd (snd (send_order sm br h signal))) = []"
proof (cases "connected_mt5 h")
  case False
  then show ?thesis by (simp add: send_order_def)
next
  case True
  obtain mapped h1 t1 where m: "map_symbol sm br h (sig_symbol signal) = (mapped, h1, t1)"
    by (cases "map_symbol sm br h (sig_symbol signal)") auto
  obtain tradeable t2 where v: "verify_symbol br mapped = (tradeable, t2)"
    by (cases "verify_symbol br mapped") auto
  have none: "order_type_of (sig_action signal) = None"
    using assms by (simp add: order_type_of_def)
  have "order_sends t1 = []" using m by (rule map_symbol_no_orders)
  moreover have "order_sends t2 = []" using verify_symbol_no_orders [of br mapped] v by simp
  ultimately show ?thesis
    by (simp add: send_order_connected [OF True m v] none)
qed

lemma submit_keeps: "e \<in> set t \<Longrightarrow> e \<in> set (snd (snd (submit br h t req)))"
  by (simp add: submit_def Let_def split: reply.splits option.splits)

text \<open>
  C5. Take a signal without a price that passes the earlier gates of \<open>send_order\<close>: the
  handler is connected, the resolved symbol is tradeable, the action is supported. Then the
  run asks the terminal for the tick of the resolved symbol. If the terminal returns a tick,
  exactly one order is submitted, and its price is the tick's ask for a market buy
  (\<^verbatim>\<open>BUY\<close> or \<^verbatim>\<open>Long\<close>) and the tick's bid for every other order type. If the terminal
  returns \<^verbatim>\<open>None\<close> or raises, \<open>send_order\<close> returns \<open>False\<close> and no order is submitted.
\<close>

theorem send_order_market_price:
  assumes "connected_mt5 h" and "sig_price signal = None"
    and m: "map_symbol sm br h (sig_symbol signal) = (mapped, h1, t1)"
    and "fst (verify_symbol br mapped)"
    and "order_type_of (sig_action signal) \<noteq> None"
  shows "case send_order sm br h signal of
           (ok, h', t) \<Rightarrow>
             Broker (Symbol_info_tick mapped) \<in> set t
             \<and> (case symbol_info_tick br mapped of
                   Returned (Some tk) \<Rightarrow>
                     map req_price (order_sends t)
                       = [if sig_action signal \<in> {Some ''BUY'', Some ''Long''} then ask tk else bid tk]
                 | _ \<Rightarrow> \<not> ok \<and> order_sends t = [])"
proof -
  obtain t2 where v: "verify_symbol br mapped = (True, t2)"
    using assms(4) by (cases "verify_symbol br mapped") auto
  obtain ot where ot: "order_type_of (sig_action signal) = Some ot"
    using assms(5) by blast
  have quiet: "order_sends t1 = []" "order_sends t2 = []"
    using map_symbol_no_orders [OF m] verify_symbol_no_orders [of br mapped] v by simp_all
  have price: "get_float (sig_price signal) 0 \<le> 0"
    using assms(2) by (simp add: get_float_def)
  note unfold = send_order_connected [OF assms(1) m v]
  show ?thesis
  proof (cases "symbol_info_tick br mapped")
    case Raised
    with quiet show ?thesis by (simp add: unfold ot price)
  next
    case (Returned answer)
    show ?thesis
    proof (cases answer)
      case None
      with Returned quiet show ?thesis by (simp add: unfold ot price)
    next
      case (Some tk)
      define req where "req = order_request mapped (get_float (sig_volume signal) 0.1) ot
                    (if ot = ORDER_TYPE_BUY then ask tk else bid tk)
                    (get_float (sig_stop_loss signal) 0) (get_float (sig_take_profit signal) 0)"
      define t0 where "t0 = (t1 @ t2) @ [Broker (Symbol_info_tick mapped)]"
      have run: "send_order sm br h signal = submit br h1 t0 req"
        using Returned Some by (simp add: unfold ot price req_def t0_def)
      obtain ok h' t where res: "submit br h1 t0 req = (ok, h', t)"
        by (cases "submit br h1 t0 req") auto
      have t0: "order_sends t0 = []" "Broker (Symbol_info_tick mapped) \<in> set t0"
        using quiet by (simp_all add: t0_def)
      have "order_sends t = [req]"
        using t0(1) submit_sends [of br h1 t0 req] by (simp add: res)
      moreover have "req_price req
          = (if sig_action signal \<in> {Some ''BUY'', Some ''Long''} then ask tk else bid tk)"
        using order_type_of_buy [OF ot] by (simp add: order_request_def req_def)
      moreover have "Broker (Symbol_info_tick mapped) \<in> set t"
        using submit_keeps [OF t0(2), of br h1 req] by (simp add: res)
      ultimately show ?thesis
        using Returned Some by (simp add: run res)
    qed
  qed
qed
lemma send_order_sends:
  "order_sends (snd (snd (send_order sm br h signal))) = [] \<or>
   (\<exists>mapped ot price.
      order_sends (snd (snd (send_order sm br h signal)))
        = [order_request mapped (get_float (sig_volume signal) 0.1) ot price
             (get_float (sig_stop_loss signal) 0) (get_float (sig_take_profit signal) 0)])"
proof (cases "connected_mt5 h")
  case False
  then show ?thesis by (simp add: send_order_def)
next
  case True
  obtain mapped h1 t1 where m: "map_symbol sm br h (sig_symbol signal) = (mapped, h1, t1)"
    by (cases "map_symbol sm br h (sig_symbol signal)") auto
  obtain tradeable t2 where v: "verify_symbol br mapped = (tradeable, t2)"
    by (cases "verify_symbol br mapped") auto
  have quiet: "order_sends t1 = []" "order_sends t2 = []"
    using map_symbol_no_orders [OF m] verify_symbol_no_orders [of br mapped] v by simp_all
  show ?thesis
    using quiet
    by (simp add: send_order_connected [OF True m v] submit_sends
          split: option.splits reply.splits) blast
qed

lemma send_order_submits:
  assumes "connected_mt5 h"
    and "fst (verify_symbol br (fst (map_symbol sm br h (sig_symbol signal))))"
    and "order_type_of (sig_action signal) \<noteq> None"
    and "0 < get_float (sig_price signal) 0
         \<or> (\<exists>tk. symbol_info_tick br (fst (map_symbol sm br h (sig_symbol signal)))
                    = Returned (Some tk))"
  shows "order_sends (snd (snd (send_order sm br h signal))) \<noteq> []"
proof -
  obtain mapped h1 t1 where m: "map_symbol sm br h (sig_symbol signal) = (mapped, h1, t1)"
    by (cases "map_symbol sm br h (sig_symbol signal)") auto
  obtain t2 where v: "verify_symbol br mapped = (True, t2)"
    using assms(2) m by (cases "verify_symbol br mapped") auto
  obtain ot where ot: "order_type_of (sig_action signal) = Some ot"
    using assms(3) by blast
  show ?thesis
    using assms(4) m
    by (auto simp add: send_order_connected [OF assms(1) m v] ot submit_sends)
qed

text \<open>
  C10. A signal without a volume is handled exactly as the same signal with the volume 0.1:
  the two runs of \<open>send_order\<close> are equal. Every order the run submits has the volume 0.1,
  and the run does submit one such order whenever the handler is connected, the resolved
  symbol is tradeable, the action is supported and a price is at hand (given in the signal,
  or quoted by the terminal).
\<close>

theorem send_order_default_volume:
  assumes "sig_volume signal = None"
  shows "send_order sm br h signal = send_order sm br h (signal\<lparr>sig_volume := Some 0.1\<rparr>)
    \<and> (\<forall>r \<in> set (order_sends (snd (snd (send_order sm br h signal)))). req_volume r = 0.1)
    \<and> (connected_mt5 h
         \<and> fst (verify_symbol br (fst (map_symbol sm br h (sig_symbol signal))))
         \<and> order_type_of (sig_action signal) \<noteq> None
         \<and> (0 < get_float (sig_price signal) 0
              \<or> (\<exists>tk. symbol_info_tick br (fst (map_symbol sm br h (sig_symbol signal)))
                         = Returned (Some tk)))
         \<longrightarrow> map req_volume (order_sends (snd (snd (send_order sm br h signal)))) = [0.1])"
proof (intro conjI impI)
  show "send_order sm br h signal = send_order sm br h (signal\<lparr>sig_volume := Some 0.1\<rparr>)"
    using assms by (simp add: send_order_def get_float_def)
next
  show "\<forall>r \<in> set (order_sends (snd (snd (send_order sm br h signal)))). req_volume r = 0.1"
    using send_order_sends [of sm br h signal] assms
    by (auto simp: get_float_def order_request_def)
next
  assume gates: "connected_mt5 h
         \<and> fst (verify_symbol br (fst (map_symbol sm br h (sig_symbol signal))))
         \<and> order_type_of (sig_action signal) \<noteq> None
         \<and> (0 < get_float (sig_price signal) 0
              \<or> (\<exists>tk. symbol_info_tick br (fst (map_symbol sm br h (sig_symbol signal)))
                         = Returned (Some tk)))"
  then have "order_sends (snd (snd (send_order sm br h signal))) \<noteq> []"
    by (intro send_order_submits) simp_all
  with send_order_sends [of sm br h signal] assms
  show "map req_volume (order_sends (snd (snd (send_order sm br h signal)))) = [0.1]"
    by (auto simp: get_float_def order_request_def)
qed

lemma scenario_eurusd:
  "map_symbol length_matcher scenario_broker scenario_handler ''EURUSD''
     = (''EURUSD'', remember scenario_handler ''EURUSD'' ''EURUSD'',
        [Log INFO (Symbol_mapping ''EURUSD''), Log INFO (Result Exact ''EURUSD'' ''EURUSD'')])"
  by (simp add: map_symbol_def Let_def found_def scenario_handler_def scenario_symbols_def
        string_defs)

lemma scenario_eurusd_tradeable: "fst (verify_symbol scenario_broker ''EURUSD'')"
  by (simp add: verify_symbol_def scenario_broker_def scenario_info_def scenario_symbols_def)

text \<open>The market buy of the scenario, without a price, on the quote 1.1000/1.1002: the
  order goes out at 1.1002.\<close>

theorem send_order_market_price_witness:
  "connected_mt5 scenario_handler \<and> sig_price market_buy = None
   \<and> fst (verify_symbol scenario_broker ''EURUSD'')
   \<and> order_type_of (sig_action market_buy) \<noteq> None
   \<and> symbol_info_tick scenario_broker ''EURUSD'' = Returned (Some \<lparr>bid = 1.1000, ask = 1.1002\<rparr>)
   \<and> map req_price (order_sends (snd (snd (send_order length_matcher scenario_broker
        scenario_handler market_buy)))) = [1.1002]"
proof -
  have c: "connected_mt5 scenario_handler" by (simp add: scenario_handler_def)
  have p: "sig_price market_buy = None" by (simp add: market_buy_def)
  have m: "map_symbol length_matcher scenario_broker scenario_handler (sig_symbol market_buy)
     = (''EURUSD'', remember scenario_handler ''EURUSD'' ''EURUSD'',
        [Log INFO (Symbol_mapping ''EURUSD''), Log INFO (Result Exact ''EURUSD'' ''EURUSD'')])"
    using scenario_eurusd by (simp add: market_buy_def)
  have a: "order_type_of (sig_action market_buy) \<noteq> None"
    by (simp add: market_buy_def order_type_of_def)
  have tk: "symbol_info_tick scenario_broker ''EURUSD''
              = Returned (Some \<lparr>bid = 1.1000, ask = 1.1002\<rparr>)"
    by (simp add: scenario_broker_def scenario_tick_def scenario_symbols_def)
  from send_order_market_price [OF c p m scenario_eurusd_tradeable a]
  have "map req_price (order_sends (snd (snd (send_order length_matcher scenario_broker
        scenario_handler market_buy)))) = [1.1002]"
    by (simp add: tk market_buy_def split: prod.splits)
  with c p scenario_eurusd_tradeable a tk show ?thesis by simp
qed

theorem send_order_unsupported_witness:
  "sig_action (market_buy\<lparr>sig_action := Some ''SCALE_IN''\<rparr>)
     \<notin> {Some ''BUY'', Some ''Long'', Some ''SELL'', Some ''Short'',
        Some ''BUY_LIMIT'', Some ''SELL_LIMIT'', Some ''BUY_STOP'', Some ''SELL_STOP''}
   \<and> fst (send_order length_matcher scenario_broker scenario_handler
            (market_buy\<lparr>sig_action := Some ''SCALE_IN''\<rparr>)) = False
   \<and> order_sends (snd (snd (send_order length_matcher scenario_broker scenario_handler
            (market_buy\<lparr>sig_action := Some ''SCALE_IN''\<rparr>)))) = []"
proof -
  have a: "sig_action (market_buy\<lparr>sig_action := Some ''SCALE_IN''\<rparr>)
     \<notin> {Some ''BUY'', Some ''Long'', Some ''SELL'', Some ''Short'',
        Some ''BUY_LIMIT'', Some ''SELL_LIMIT'', Some ''BUY_STOP'', Some ''SELL_STOP''}"
    by simp
  from send_order_unsupported [OF a, of length_matcher scenario_broker scenario_handler] a
  show ?thesis by blast
qed

theorem send_order_default_volume_witness:
  "sig_volume market_buy = None
   \<and> connected_mt5 scenario_handler
   \<and> fst (verify_symbol scenario_broker
            (fst (map_symbol length_matcher scenario_broker scenario_handler (sig_symbol market_buy))))
   \<and> order_type_of (sig_action market_buy) \<noteq> None
   \<and> fst (send_order length_matcher scenario_broker scenario_handler market_buy)
   \<and> map req_volume (order_sends (snd (snd (send_order length_matcher scenario_broker
        scenario_handler market_buy)))) = [0.1]"
proof -
  have v: "sig_volume market_buy = None" by (simp add: market_buy_def)
  have c: "connected_mt5 scenario_handler" by (simp add: scenario_handler_def)
  have m: "fst (map_symbol length_matcher scenario_broker scenario_handler (sig_symbol market_buy))
             = ''EURUSD''"
    using scenario_eurusd by (simp add: market_buy_def)
  have a: "order_type_of (sig_action market_buy) \<noteq> None"
    by (simp add: market_buy_def order_type_of_def)
  have tk: "symbol_info_tick scenario_broker ''EURUSD''
              = Returned (Some \<lparr>bid = 1.1000, ask = 1.1002\<rparr>)"
    by (simp add: scenario_broker_def scenario_tick_def scenario_symbols_def)
  have ok: "fst (send_order length_matcher scenario_broker scenario_handler market_buy)"
    by code_simp
  from conjunct2 [OF conjunct2 [OF
         send_order_default_volume [OF v, of length_matcher scenario_broker scenario_handler]]]
  have "map req_volume (order_sends (snd (snd (send_order length_matcher scenario_broker
        scenario_handler market_buy)))) = [0.1]"
    using c m a tk scenario_eurusd_tradeable by simp
  with v c m a ok scenario_eurusd_tradeable show ?thesis by simp
qed

section \<open>Closing positions\<close>

text \<open>
  What the loop does as long as nothing raises. If the terminal has a tick for the symbol of
  every listed position and answers the closing order of every listed position with a
  result, whatever its return code, then \<open>close_positions\<close> returns \<open>True\<close> and submits
  exactly one closing order per listed position, in their order: none when nothing is
  listed, and all of them when the terminal rejects some.
\<close>

lemma close_loop_all:
  assumes "\<forall>p \<in> set ps. \<exists>tk. symbol_info_tick br (pos_symbol p) = Returned (Some tk)"
    and "\<forall>p \<in> set ps. \<forall>ot price. \<exists>res. order_send br (close_request p ot price) = Returned (Some res)"
  shows "fst (close_loop br ps)
         \<and> map req_position (order_sends (snd (close_loop br ps))) = map (\<lambda>p. Some (ticket p)) ps"
  using assms
proof (induction ps)
  case Nil
  then show ?case by simp
next
  case (Cons pos rest)
  from Cons.prems(1) obtain tk
    where tk: "symbol_info_tick br (pos_symbol pos) = Returned (Some tk)"
    by auto
  define ot where "ot = (if pos_type pos = ORDER_TYPE_BUY then ORDER_TYPE_SELL else ORDER_TYPE_BUY)"
  define req where "req = close_request pos ot (if ot = ORDER_TYPE_SELL then bid tk else ask tk)"
  from Cons.prems(2) obtain res where res: "order_send br req = Returned (Some res)"
    unfolding req_def by (meson list.set_intros(1))
  obtain ok t' where rest: "close_loop br rest = (ok, t')"
    by (cases "close_loop br rest") auto
  from Cons.IH Cons.prems rest
  have ih: "ok" "map req_position (order_sends t') = map (\<lambda>p. Some (ticket p)) rest"
    by simp_all
  have pos: "req_position req = Some (ticket pos)"
    by (simp add: req_def close_request_def)
  show ?case
    using tk res rest ih pos
    by (simp add: Let_def ot_def [symmetric] req_def [symmetric])
qed

lemma close_positions_continues:
  assumes fetch: "positions_get br
                    (if truthy symbol0 then Some (fst (map_symbol sm br h (the symbol0))) else symbol0)
                  = Returned fetched"
    and ticks: "\<forall>p \<in> set (listed fetched).
                  \<exists>tk. symbol_info_tick br (pos_symbol p) = Returned (Some tk)"
    and answers: "\<forall>p \<in> set (listed fetched). \<forall>ot price.
                    \<exists>res. order_send br (close_request p ot price) = Returned (Some res)"
  shows "fst (close_positions sm br h symbol0)
         \<and> map req_position (order_sends (snd (snd (close_positions sm br h symbol0))))
             = map (\<lambda>p. Some (ticket p)) (listed fetched)"
proof -
  obtain mapped h1 t1 where m: "map_symbol sm br h (the symbol0) = (mapped, h1, t1)"
    by (cases "map_symbol sm br h (the symbol0)") auto
  have quiet: "order_sends t1 = []" using m by (rule map_symbol_no_orders)
  obtain ok t' where loop: "close_loop br (listed fetched) = (ok, t')"
    by (cases "close_loop br (listed fetched)") auto
  from close_loop_all [OF ticks answers] loop
  have all: "ok" "map req_position (order_sends t') = map (\<lambda>p. Some (ticket p)) (listed fetched)"
    by simp_all
  have fetch': "positions_get br (if truthy symbol0 then Some mapped else symbol0) = Returned fetched"
    using fetch m by (cases "truthy symbol0") simp_all
  show ?thesis
  proof (cases "truthy symbol0")
    case True
    with fetch' have "positions_get br (Some mapped) = Returned fetched" by simp
    with True m quiet loop all show ?thesis
      by (cases fetched) (simp_all add: close_positions_def Let_def listed_def)
  next
    case False
    with fetch' have "positions_get br symbol0 = Returned fetched" by simp
    with False loop all show ?thesis
      by (cases fetched) (simp_all add: close_positions_def Let_def listed_def)
  qed
qed

text \<open>On the terminal of the scenario the second of the three closes is rejected; the run
  logs it, goes on to the third, and returns \<open>True\<close>.\<close>

lemma close_positions_rejection_example:
  "Log ERROR (Close_error 2)
        \<in> set (snd (snd (close_positions length_matcher scenario_broker scenario_handler None)))
   \<and> fst (close_positions length_matcher scenario_broker scenario_handler None)
   \<and> map req_position (order_sends (snd (snd
          (close_positions length_matcher scenario_broker scenario_handler None))))
        = [Some 1, Some 2, Some 3]"
  by code_simp

text \<open>
  C6. The claim is that \<open>close_positions\<close> returns success whenever the open positions were
  fetched, whatever happens to the individual closes, and that a failure on one position
  does not stop the others from being attempted. The code does not keep it. Here the
  terminal lists three positions and has no quote for the symbol of the second
  (\<^verbatim>\<open>symbol_info_tick\<close> returns \<^verbatim>\<open>None\<close>, the case \<^verbatim>\<open>send_order\<close> tests for): the run
  closes the first position, then reading the price of the missing tick raises, the
  \<^verbatim>\<open>except\<close> clause logs the exception and returns \<open>False\<close>, and the third position is
  never attempted.
\<close>

theorem close_positions_aborts:
  "positions_get quoteless_broker None = Returned (Some scenario_positions)
   \<and> map ticket scenario_positions = [1, 2, 3]
   \<and> symbol_info_tick quoteless_broker (pos_symbol (scenario_positions ! 1)) = Returned None
   \<and> \<not> fst (close_positions length_matcher quoteless_broker scenario_handler None)
   \<and> Log ERROR Close_exception
        \<in> set (snd (snd (close_positions length_matcher quoteless_broker scenario_handler None)))
   \<and> map req_position (order_sends (snd (snd
          (close_positions length_matcher quoteless_broker scenario_handler None))))
        = [Some 1]"
  by code_simp

section \<open>Fuzzy matching\<close>

lemma get_close_matches_subset:
  "set (get_close_matches sm word possibilities n cutoff)
     \<subseteq> {x \<in> set possibilities. passes_cutoff sm cutoff word x}"
proof -
  have "set (take n (rev (sort (map (\<lambda>x. (ratio sm x word, x))
              (filter (passes_cutoff sm cutoff word) possibilities)))))
        \<subseteq> set (map (\<lambda>x. (ratio sm x word, x)) (filter (passes_cutoff sm cutoff word) possibilities))"
    using set_take_subset [of n "rev (sort (map (\<lambda>x. (ratio sm x word, x))
              (filter (passes_cutoff sm cutoff word) possibilities)))"]
    by simp
  then show ?thesis
    unfolding get_close_matches_def nlargest_def by auto
qed

lemma get_close_matches_length: "length (get_close_matches sm word possibilities n cutoff) \<le> n"
  by (simp add: get_close_matches_def nlargest_def)

lemma first_named_hd:
  assumes "set matches \<subseteq> upper ` set syms" "first_named matches syms = Some s"
  shows "matches \<noteq> [] \<and> upper s = hd matches \<and> find (\<lambda>b. upper b = hd matches) syms = Some s"
proof (cases matches)
  case Nil
  with assms(2) show ?thesis by simp
next
  case (Cons m ms)
  with assms(1) obtain b where "b \<in> set syms" "upper b = m" by auto
  then have "find (\<lambda>b. upper b = m) syms \<noteq> None"
    by (auto simp: find_None_iff)
  then obtain s' where f: "find (\<lambda>b. upper b = m) syms = Some s'" by blast
  with assms(2) Cons have "s' = s" by simp
  with f Cons show ?thesis
    by (auto simp: find_Some_iff)
qed

lemma pair_le_fst: "(p :: real \<times> string) \<le> q \<Longrightarrow> fst p \<le> fst q"
  by (auto simp: less_eq_prod_def)

lemma scored_sorted:
  "sorted_wrt (\<lambda>a b. ratio sm b word \<le> ratio sm a word)
     (get_close_matches sm word possibilities n cutoff)"
proof -
  define R where
    "R = map (\<lambda>x. (ratio sm x word, x)) (filter (passes_cutoff sm cutoff word) possibilities)"
  define T where "T = take n (rev (sort R))"
  have score: "fst e = ratio sm (snd e) word" if "e \<in> set R" for e
    using that unfolding R_def by auto
  have "sorted (sort R)" by (rule sorted_sort)
  then have "sorted_wrt (\<lambda>a b. b \<le> a) (rev (sort R))"
    by (simp only: sorted_wrt_rev)
  then have desc: "sorted_wrt (\<lambda>a b. b \<le> a) T"
    unfolding T_def by (rule sorted_wrt_take)
  have sub: "set T \<subseteq> set R"
    unfolding T_def using set_take_subset [of n "rev (sort R)"] by simp
  have "sorted_wrt (\<lambda>a b. ratio sm (snd b) word \<le> ratio sm (snd a) word) T"
  proof (rule sorted_wrt_mono_rel [OF _ desc])
    fix a b assume "a \<in> set T" "b \<in> set T" "b \<le> a"
    then have "fst b \<le> fst a" "a \<in> set R" "b \<in> set R"
      using sub pair_le_fst by blast+
    then show "ratio sm (snd b) word \<le> ratio sm (snd a) word"
      using score by metis
  qed
  then show ?thesis
    by (simp add: get_close_matches_def nlargest_def sorted_wrt_map T_def R_def)
qed
lemma best_first:
  assumes "0 < n" "x \<in> set possibilities" "passes_cutoff sm cutoff word x"
  shows "get_close_matches sm word possibilities n cutoff \<noteq> []
         \<and> ratio sm x word \<le> ratio sm (hd (get_close_matches sm word possibilities n cutoff)) word"
proof -
  define R where
    "R = map (\<lambda>x. (ratio sm x word, x)) (filter (passes_cutoff sm cutoff word) possibilities)"
  define S where "S = sort R"
  have score: "fst e = ratio sm (snd e) word" if "e \<in> set R" for e
    using that unfolding R_def by auto
  have mem: "(ratio sm x word, x) \<in> set R" using assms(2,3) unfolding R_def by simp
  have setS: "set S = set R" unfolding S_def by simp
  have ne: "S \<noteq> []" using mem setS by auto
  have sorted: "sorted S" unfolding S_def by (rule sorted_sort)
  have top: "e \<le> last S" if "e \<in> set S" for e
  proof -
    from that obtain i where i: "i < length S" "S ! i = e"
      by (auto simp: in_set_conv_nth)
    have "i \<le> length S - 1" using i(1) by arith
    moreover have "length S - 1 < length S" using ne by simp
    ultimately have "S ! i \<le> S ! (length S - 1)"
      using sorted by (rule sorted_nth_mono [rotated])
    with i(2) last_conv_nth [OF ne] show ?thesis by simp
  qed
  have "last S \<in> set R" using ne setS last_in_set [of S] by simp
  then have best: "fst (last S) = ratio sm (snd (last S)) word" by (rule score)
  have "(ratio sm x word, x) \<le> last S" using mem setS by (intro top) simp
  then have "fst (ratio sm x word, x) \<le> fst (last S)" by (rule pair_le_fst)
  then have le: "ratio sm x word \<le> ratio sm (snd (last S)) word" using best by simp
  have tk: "take n (rev S) \<noteq> []" using ne assms(1) by simp
  have "hd (take n (rev S)) = last S"
    using ne assms(1) by (simp add: hd_rev)
  then have "hd (map snd (take n (rev S))) = snd (last S)"
    using tk by (simp add: hd_map)
  with tk le show ?thesis
    by (simp add: get_close_matches_def nlargest_def R_def [symmetric] S_def [symmetric])
qed
text \<open>
  C9. Whenever \<open>fuzzy_map\<close> returns a broker symbol \<open>s\<close> for a symbol, the similarity of
  their upper-case forms is at least 0.6. The list of close matches has at most three
  entries, in descending order of similarity; its first entry is the upper-case form of
  \<open>s\<close>, and \<open>s\<close> is the first broker symbol with that upper-case form. No broker symbol
  that passes the cutoff is more similar to the symbol than \<open>s\<close>.
\<close>

theorem fuzzy_map_above_cutoff:
  assumes "fuzzy_map sm symbol syms = Some s"
  shows "s \<in> set syms
     \<and> 0.6 \<le> ratio sm (upper s) (upper symbol)
     \<and> length (get_close_matches sm (upper symbol) (map upper syms) 3 0.6) \<le> 3
     \<and> get_close_matches sm (upper symbol) (map upper syms) 3 0.6 \<noteq> []
     \<and> upper s = hd (get_close_matches sm (upper symbol) (map upper syms) 3 0.6)
     \<and> find (\<lambda>b. upper b = hd (get_close_matches sm (upper symbol) (map upper syms) 3 0.6)) syms
           = Some s
     \<and> sorted_wrt (\<lambda>a b. ratio sm b (upper symbol) \<le> ratio sm a (upper symbol))
           (get_close_matches sm (upper symbol) (map upper syms) 3 0.6)
     \<and> (\<forall>b \<in> set syms. passes_cutoff sm 0.6 (upper symbol) (upper b)
            \<longrightarrow> ratio sm (upper b) (upper symbol) \<le> ratio sm (upper s) (upper symbol))"
proof -
  define matches where "matches = get_close_matches sm (upper symbol) (map upper syms) 3 0.6"
  have sub: "set matches \<subseteq> {x \<in> set (map upper syms). passes_cutoff sm 0.6 (upper symbol) x}"
    unfolding matches_def by (rule get_close_matches_subset)
  then have named: "set matches \<subseteq> upper ` set syms" by auto
  have run: "first_named matches syms = Some s"
    using assms by (simp add: fuzzy_map_def matches_def)
  from first_named_hd [OF named run]
  have ne: "matches \<noteq> []" and hd: "upper s = hd matches"
    and first: "find (\<lambda>b. upper b = hd matches) syms = Some s"
    by simp_all
  from first have mem: "s \<in> set syms" by (auto simp: find_Some_iff)
  from ne hd have "upper s \<in> set matches" by simp
  with sub have "passes_cutoff sm 0.6 (upper symbol) (upper s)" by blast
  then have cut: "0.6 \<le> ratio sm (upper s) (upper symbol)"
    by (simp add: passes_cutoff_def)
  have len: "length matches \<le> 3"
    unfolding matches_def by (rule get_close_matches_length)
  have ranked: "sorted_wrt (\<lambda>a b. ratio sm b (upper symbol) \<le> ratio sm a (upper symbol)) matches"
    unfolding matches_def by (rule scored_sorted)
  have best: "ratio sm (upper b) (upper symbol) \<le> ratio sm (upper s) (upper symbol)"
    if "b \<in> set syms" "passes_cutoff sm 0.6 (upper symbol) (upper b)" for b
  proof -
    have "upper b \<in> set (map upper syms)" using that(1) by simp
    from best_first [OF _ this that(2), of 3] show ?thesis
      by (simp add: hd matches_def)
  qed
  from mem cut len ne hd first ranked best show ?thesis
    unfolding matches_def by blast
qed

theorem fuzzy_map_above_cutoff_witness:
  "fuzzy_map length_matcher ''EURUSX'' scenario_symbols = Some ''EURUSD''
   \<and> ''EURUSD'' \<in> set scenario_symbols
   \<and> 0.6 \<le> ratio length_matcher (upper ''EURUSD'') (upper ''EURUSX'')
   \<and> upper ''EURUSD''
       = hd (get_close_matches length_matcher (upper ''EURUSX'') (map upper scenario_symbols) 3 0.6)"
proof -
  have f: "fuzzy_map length_matcher ''EURUSX'' scenario_symbols = Some ''EURUSD''"
    by code_simp
  from fuzzy_map_above_cutoff [OF f] f show ?thesis by blast
qed

section \<open>The cache between calls\<close>

text \<open>
  Orders and closing runs touch the cache through \<open>map_symbol\<close> only, so they too leave
  every entry in place: short of \<open>clear_symbol_cache\<close>, a later handler state always holds
  the entries of an earlier one, which is what the repeated lookup above asks for.
\<close>

lemma submit_handler: "fst (snd (submit br h t req)) = h"
  by (simp add: submit_def Let_def split: reply.splits option.splits)

lemma send_order_cache_grows:
  assumes "send_order sm br h signal = (ok, h', t)"
  shows "symbol_cache h \<subseteq>\<^sub>m symbol_cache h'"
proof (cases "connected_mt5 h")
  case False
  with assms show ?thesis by (simp add: send_order_def)
next
  case True
  obtain mapped h1 t1 where m: "map_symbol sm br h (sig_symbol signal) = (mapped, h1, t1)"
    by (cases "map_symbol sm br h (sig_symbol signal)") auto
  obtain tradeable t2 where v: "verify_symbol br mapped = (tradeable, t2)"
    by (cases "verify_symbol br mapped") auto
  have "fst (snd (send_order sm br h signal)) = h1"
    by (simp add: send_order_connected [OF True m v] submit_handler
          split: option.splits reply.splits)
  with assms have "h' = h1" by simp
  with map_symbol_cache_grows [OF m] show ?thesis by simp
qed

lemma close_positions_cache_grows:
  assumes "close_positions sm br h symbol0 = (ok, h', t)"
  shows "symbol_cache h \<subseteq>\<^sub>m symbol_cache h'"
proof (cases "truthy symbol0")
  case False
  then have "fst (snd (close_positions sm br h symbol0)) = h"
    by (simp add: close_positions_def Let_def split: reply.splits option.splits prod.splits)
  with assms show ?thesis by simp
next
  case True
  obtain mapped h1 t1 where m: "map_symbol sm br h (the symbol0) = (mapped, h1, t1)"
    by (cases "map_symbol sm br h (the symbol0)") auto
  have "fst (snd (close_positions sm br h symbol0)) = h1"
    using True m
    by (simp add: close_positions_def Let_def split: reply.splits option.splits prod.splits)
  with assms have "h' = h1" by simp
  with map_symbol_cache_grows [OF m] show ?thesis by simp
qed

end
